theory Spec2Isabelle
  imports Complex_Main
begin

section \<open>Geometry of connector lines (code/svg/elements/line.ts)\<close>

text \<open>
  The development embeds the line element of the vector-graphics engine:
  \<^verbatim>\<open>determineAlignment\<close>, the class \<^verbatim>\<open>Line\<close> with \<^verbatim>\<open>vector\<close>, \<^verbatim>\<open>length\<close>,
  \<^verbatim>\<open>_boundingBox\<close>, \<^verbatim>\<open>_encode\<close>, \<^verbatim>\<open>text\<close> and \<^verbatim>\<open>shorten\<close>, and the two
  connectors \<^verbatim>\<open>ConnectionLine\<close> and \<^verbatim>\<open>DiagonalLine\<close>.
  The text of line.ts stands in src/pages/email/graphics/message-envelope.ts from line 89
  on, and the line numbers below are those of that file.

  A JavaScript \<^verbatim>\<open>number\<close> is modelled as a \<^typ>\<open>real\<close>: the arithmetic is exact, and
  there is no NaN and no infinity. The classes and functions that \<^verbatim>\<open>line.ts\<close> imports
  (\<^verbatim>\<open>Point\<close>, \<^verbatim>\<open>Box\<close>, \<^verbatim>\<open>markerOffset\<close>, \<^verbatim>\<open>Circle\<close>, \<^verbatim>\<open>Ellipse\<close>, the text
  estimator) are not among the sources; each of them is modelled from the specification
  and marked as such.
\<close>

subsection \<open>Errors\<close>

datatype error = DomainError

subsection \<open>Points (utility/point.ts)\<close>

record Point =
  x :: real
  y :: real

text \<open>\<^verbatim>\<open>P(x, y)\<close>, the constructor shorthand used by the diagram scripts.\<close>

definition P :: "real \<Rightarrow> real \<Rightarrow> Point" where
  "P a b = \<lparr>x = a, y = b\<rparr>"

datatype LineSide = LineLeft | LineRight

text \<open>Modelled from the spec: \<^verbatim>\<open>Point.add\<close> (vector addition); point.ts is missing.\<close>

definition add :: "Point \<Rightarrow> Point \<Rightarrow> Point" where
  "add p q = P (x p + x q) (y p + y q)"

text \<open>Modelled from the spec: \<^verbatim>\<open>Point.subtract\<close> (vector subtraction); point.ts is missing.\<close>

definition subtract :: "Point \<Rightarrow> Point \<Rightarrow> Point" where
  "subtract p q = P (x p - x q) (y p - y q)"

text \<open>Modelled from the spec: \<^verbatim>\<open>Point.multiply\<close> (scalar scaling); point.ts is missing.\<close>

definition multiply :: "Point \<Rightarrow> real \<Rightarrow> Point" where
  "multiply p k = P (x p * k) (y p * k)"

text \<open>
  Modelled from the spec: \<^verbatim>\<open>Point.absolute\<close>, the component-wise absolute value;
  point.ts is missing.
\<close>

definition absolute :: "Point \<Rightarrow> Point" where
  "absolute p = P \<bar>x p\<bar> \<bar>y p\<bar>"

text \<open>
  Modelled from the spec: \<^verbatim>\<open>Point.length\<close>, the Euclidean magnitude; point.ts is
  missing.
\<close>

definition length_P :: "Point \<Rightarrow> real" where
  "length_P p = sqrt (x p * x p + y p * y p)"

text \<open>
  Modelled from the spec: \<^verbatim>\<open>Point.rotate\<close>, the vector rotated by 90 degrees in the
  given rotational sense; point.ts is missing. The y axis of the drawing points down,
  so the left of a vector pointing right is up.
\<close>

definition rotate_P :: "Point \<Rightarrow> LineSide \<Rightarrow> Point" where
  "rotate_P p side =
     (case side of LineLeft \<Rightarrow> P (y p) (- x p) | LineRight \<Rightarrow> P (- y p) (x p))"

text \<open>
  Modelled from the spec: \<^verbatim>\<open>Point.normalize\<close> returns a vector of exactly the target
  length pointing in the same direction and fails with a domain error if the input
  vector has zero length; point.ts is missing.
\<close>

definition normalize :: "Point \<Rightarrow> real \<Rightarrow> error + Point" where
  "normalize p targetLength =
     (if length_P p = 0 then Inl DomainError
      else Inr (multiply p (targetLength / length_P p)))"

text \<open>
  Modelled from the spec: rounding of a number to three decimal places, as
  \<^verbatim>\<open>Math.round(value * 1000) / 1000\<close>; the helper is missing.
\<close>

definition round3 :: "real \<Rightarrow> real" where
  "round3 a = of_int (round (a * 1000)) / 1000"

text \<open>Modelled from the spec: \<^verbatim>\<open>Point.round3\<close>, component-wise; point.ts is missing.\<close>

definition round3_P :: "Point \<Rightarrow> Point" where
  "round3_P p = P (round3 (x p)) (round3 (y p))"

subsection \<open>Alignment (elements/text.ts, elements/line.ts)\<close>

datatype HorizontalAlignment = HLeft | HCenter | HRight

datatype VerticalAlignment = VTop | VCenter | VBottom

record Alignment =
  horizontalAlignment :: HorizontalAlignment
  verticalAlignment :: VerticalAlignment

text \<open>\<^verbatim>\<open>determineAlignment\<close>, line.ts lines 99 to 118.\<close>

definition determineAlignment :: "Point \<Rightarrow> Alignment" where
  "determineAlignment offset =
     (let absoluteOffset = absolute offset;
          h = (if y absoluteOffset > x absoluteOffset * 4 then HCenter
               else if x offset > 0 then HLeft
               else HRight);
          v = (if x absoluteOffset > y absoluteOffset * 4 then VCenter
               else if y offset > 0 then VTop
               else VBottom)
      in \<lparr>horizontalAlignment = h, verticalAlignment = v\<rparr>)"

subsection \<open>Object spread and nullish coalescing\<close>

text \<open>
  An optional key of a property object is an \<^typ>\<open>'a option\<close>: \<open>None\<close> when the
  key is absent. An optional key whose value may itself be \<^verbatim>\<open>undefined\<close> is an
  \<^typ>\<open>'a option option\<close>. \<open>spread k v\<close> is the value of a key in
  \<^verbatim>\<open>{ key: v, ...props }\<close>, where \<open>k\<close> is the key of \<^verbatim>\<open>props\<close>: a key that is
  present in \<^verbatim>\<open>props\<close> overrides. \<open>member_of k\<close> is \<^verbatim>\<open>props.key\<close>, and
  \<open>nullish v d\<close> is \<^verbatim>\<open>v ?? d\<close>.
\<close>

definition spread :: "'a option \<Rightarrow> 'a \<Rightarrow> 'a" where
  "spread k v = (case k of None \<Rightarrow> v | Some w \<Rightarrow> w)"

definition member_of :: "'a option option \<Rightarrow> 'a option" where
  "member_of k = (case k of None \<Rightarrow> None | Some v \<Rightarrow> v)"

definition nullish :: "'a option \<Rightarrow> 'a \<Rightarrow> 'a" where
  "nullish v d = (case v of None \<Rightarrow> d | Some w \<Rightarrow> w)"

subsection \<open>Boxes (utility/box.ts)\<close>

datatype BoxSide = SideTop | SideRight | SideBottom | SideLeft

text \<open>
  Modelled from the spec: a \<^verbatim>\<open>Box\<close> is an axis-aligned rectangle given by its
  position (the top-left corner) and its size (width, height); box.ts is missing.
\<close>

record Box =
  position :: Point
  size :: Point

text \<open>
  Modelled from the spec: \<^verbatim>\<open>BoundingBox(p1, p2)\<close>, the smallest axis-aligned box
  containing both points, whatever their order; box.ts is missing.
\<close>

definition BoundingBox :: "Point \<Rightarrow> Point \<Rightarrow> Box" where
  "BoundingBox p1 p2 =
     \<lparr>position = P (min (x p1) (x p2)) (min (y p1) (y p2)),
      size = P \<bar>x p1 - x p2\<bar> \<bar>y p1 - y p2\<bar>\<rparr>"

text \<open>Modelled from the spec: the center of a box; box.ts is missing.\<close>

definition center_B :: "Box \<Rightarrow> Point" where
  "center_B b = add (position b) (multiply (size b) (1 / 2))"

text \<open>
  Modelled from the spec: \<^verbatim>\<open>Box.pointAt(side, offset)\<close>, the point on the requested
  edge moved perpendicular to that edge by the offset, so that a connector ends just
  outside the shape; box.ts is missing. The point on the edge is the middle of the edge
  and the offset leads away from the box.
\<close>

definition pointAt :: "Box \<Rightarrow> BoxSide \<Rightarrow> real \<Rightarrow> Point" where
  "pointAt b side offset =
     (case side of
        SideTop \<Rightarrow> P (x (center_B b)) (y (position b) - offset)
      | SideRight \<Rightarrow> P (x (position b) + x (size b) + offset) (y (center_B b))
      | SideBottom \<Rightarrow> P (x (center_B b)) (y (position b) + y (size b) + offset)
      | SideLeft \<Rightarrow> P (x (position b) - offset) (y (center_B b)))"

subsection \<open>Markers (utility/marker.ts)\<close>

text \<open>
  The ends of a line that carry a marker: the values \<^verbatim>\<open>'start'\<close> and \<^verbatim>\<open>'end'\<close>
  of the \<^verbatim>\<open>marker\<close> property, as line.ts and the diagram scripts use them.
\<close>

datatype Marker = MarkerStart | MarkerEnd

text \<open>The type \<^verbatim>\<open>Marker | Marker[]\<close> of the \<^verbatim>\<open>marker\<close> property.\<close>

datatype Markers = Single Marker | Several "Marker list"

text \<open>
  Modelled from the spec: \<^verbatim>\<open>markerOffset(marker, side)\<close> is the physical length of
  the marker if a marker is present at that end of the line, and nothing otherwise;
  marker.ts is missing. The physical length of a marker is a constant of marker.ts and
  is the parameter \<open>markerLength\<close>.
\<close>

definition markerOffset :: "real \<Rightarrow> Markers \<Rightarrow> Marker \<Rightarrow> real" where
  "markerOffset markerLength marker side =
     (if (case marker of Single k \<Rightarrow> k = side | Several ks \<Rightarrow> side \<in> set ks)
      then markerLength else 0)"

subsection \<open>Texts (elements/text.ts)\<close>

type_synonym Color = string

text \<open>The type \<^verbatim>\<open>string | string[]\<close> of the text of a label.\<close>

datatype TextContent = OneLine string | ManyLines "string list"

text \<open>
  The properties of a \<^verbatim>\<open>Text\<close> element that \<^verbatim>\<open>Line.text\<close> sets (line.ts line
  165). The remaining presentation properties are handed through unchanged and are not
  modelled.
\<close>

record TextProps =
  text_position :: Point
  text_text :: TextContent
  text_horizontalAlignment :: "HorizontalAlignment option"
  text_verticalAlignment :: "VerticalAlignment option"
  text_color :: "Color option"

text \<open>\<^verbatim>\<open>Omit<TextProps, 'position' | 'text'>\<close>: every key is optional.\<close>

record TextOptions =
  key_horizontalAlignment :: "HorizontalAlignment option option"
  key_verticalAlignment :: "VerticalAlignment option option"
  key_text_color :: "Color option option"

text \<open>
  Modelled from the spec: the number of characters of the longest line of a text;
  text.ts is missing.
\<close>

definition longestLine :: "string list \<Rightarrow> nat" where
  "longestLine lines = foldr (\<lambda>line n. max (length line) n) lines 0"

text \<open>
  Modelled from the spec: \<^verbatim>\<open>estimateTextSizeWithMargin(lines)\<close> returns a box sized
  from the longest line's estimated character width (a fixed-pitch metric) and the
  line count times a fixed line height, inflated by a constant margin on all sides;
  text.ts is missing. The character width, the line height and the margin are
  constants of the engine and are parameters here.
\<close>

definition estimateTextSizeWithMargin :: "real \<Rightarrow> real \<Rightarrow> Point \<Rightarrow> string list \<Rightarrow> Point" where
  "estimateTextSizeWithMargin characterWidth lineHeight margin lines =
     add (P (characterWidth * real (longestLine lines)) (lineHeight * real (length lines)))
       (multiply margin 2)"

subsection \<open>Lines (elements/line.ts)\<close>

text \<open>
  \<^verbatim>\<open>LineProps\<close>, line.ts lines 120 to 124, with the color of
  \<^verbatim>\<open>VisualElementProps\<close>. An optional property that is not set is \<open>None\<close>.
\<close>

record LineProps =
  start :: Point
  end' :: Point
  marker :: "Markers option"
  color :: "Color option"

text \<open>\<^verbatim>\<open>Omit<LineProps, 'start' | 'end'>\<close>: every key is optional.\<close>

record LineOptions =
  key_marker :: "Markers option option"
  key_color :: "Color option option"

text \<open>\<^verbatim>\<open>Line.vector\<close>, line.ts lines 127 to 129.\<close>

definition Line_vector :: "LineProps \<Rightarrow> Point" where
  "Line_vector this = subtract (end' this) (start this)"

text \<open>\<^verbatim>\<open>Line.length\<close>, line.ts lines 131 to 133.\<close>

definition Line_length :: "LineProps \<Rightarrow> real" where
  "Line_length this = length_P (Line_vector this)"

text \<open>\<^verbatim>\<open>Line._boundingBox\<close>, line.ts lines 135 to 137.\<close>

definition Line_boundingBox :: "LineProps \<Rightarrow> Box" where
  "Line_boundingBox this = BoundingBox (start this) (end' this)"

text \<open>
  Modelled from the spec: \<^verbatim>\<open>VisualElement.center\<close>, the center of the element's
  bounding box; element.ts is missing.
\<close>

definition Line_center :: "LineProps \<Rightarrow> Point" where
  "Line_center this = center_B (Line_boundingBox this)"

text \<open>
  \<^verbatim>\<open>Line._encode\<close>, line.ts lines 139 to 154. The conversion of a number to a
  string (\<open>showNumber\<close>), the result of \<^verbatim>\<open>this.attributes()\<close>, the function
  \<^verbatim>\<open>markerAttributes\<close> and the result of \<^verbatim>\<open>this.children(prefix)\<close> are parameters.
  The first argument of \<^verbatim>\<open>markerAttributes\<close> is the bound method
  \<^verbatim>\<open>this.length\<close>, which reads the stored properties.
\<close>

definition Line_encode ::
  "(real \<Rightarrow> string) \<Rightarrow> string \<Rightarrow> ((unit \<Rightarrow> real) \<Rightarrow> Markers option \<Rightarrow> Color option \<Rightarrow> string) \<Rightarrow>
   (string \<Rightarrow> string) \<Rightarrow> LineProps \<Rightarrow> string \<Rightarrow> string" where
  \<open>Line_encode showNumber attributes markerAttributes children this prefix =
     (let roundedStart = round3_P (start this);
          roundedEnd = round3_P (end' this)
      in prefix @ ''<line'' @ attributes
         @ '' x1="'' @ showNumber (x roundedStart) @ ''"''
         @ '' y1="'' @ showNumber (y roundedStart) @ ''"''
         @ '' x2="'' @ showNumber (x roundedEnd) @ ''"''
         @ '' y2="'' @ showNumber (y roundedEnd) @ ''"''
         @ markerAttributes (\<lambda>_. Line_length this) (marker this) (color this)
         @ ''>'' @ children prefix @ ''</line>'' @ [CHR 0x0A])\<close>

text \<open>
  \<^verbatim>\<open>Line.text\<close>, line.ts lines 156 to 166. The constant
  \<^verbatim>\<open>lineToTextDistance\<close> of constants.ts is a parameter. An exception of
  \<^verbatim>\<open>normalize\<close> leaves the method.
\<close>

definition Line_text ::
  "real \<Rightarrow> LineProps \<Rightarrow> TextContent \<Rightarrow> LineSide \<Rightarrow> TextOptions \<Rightarrow> error + TextProps" where
  "Line_text lineToTextDistance this text side props =
     (case normalize (rotate_P (Line_vector this) side) lineToTextDistance of
        Inl e \<Rightarrow> Inl e
      | Inr offset \<Rightarrow>
          (let position = add (Line_center this) offset;
               color = color this;
               alignment = determineAlignment offset
           in Inr \<lparr>text_position = position,
                    text_text = text,
                    text_horizontalAlignment =
                      spread (key_horizontalAlignment props) (Some (horizontalAlignment alignment)),
                    text_verticalAlignment =
                      spread (key_verticalAlignment props) (Some (verticalAlignment alignment)),
                    text_color = spread (key_text_color props) color\<rparr>))"

text \<open>
  \<^verbatim>\<open>Line.shorten\<close>, line.ts lines 168 to 173. The second argument is optional and
  defaults to the first.
\<close>

definition Line_shorten :: "LineProps \<Rightarrow> real \<Rightarrow> real option \<Rightarrow> error + LineProps" where
  "Line_shorten this startOffset endOffsetArgument =
     (let endOffset = nullish endOffsetArgument startOffset;
          vector = Line_vector this
      in case normalize vector startOffset of
           Inl e \<Rightarrow> Inl e
         | Inr a \<Rightarrow>
             (case normalize vector endOffset of
                Inl e \<Rightarrow> Inl e
              | Inr b \<Rightarrow>
                  Inr (this\<lparr>start := add (start this) a, end' := subtract (end' this) b\<rparr>)))"

text \<open>
  \<^verbatim>\<open>ConnectionLine\<close>, line.ts lines 176 to 187. The method \<^verbatim>\<open>boundingBox\<close> of
  the elements is a parameter.
\<close>

definition ConnectionLine ::
  "real \<Rightarrow> ('e \<Rightarrow> Box) \<Rightarrow> 'e \<Rightarrow> BoxSide \<Rightarrow> 'e \<Rightarrow> BoxSide \<Rightarrow> LineOptions \<Rightarrow> LineProps" where
  "ConnectionLine markerLength boundingBox startElement startSide endElement endSide props =
     (let marker = nullish (member_of (key_marker props)) (Single MarkerEnd);
          start = pointAt (boundingBox startElement) startSide
                    (markerOffset markerLength marker MarkerStart);
          end = pointAt (boundingBox endElement) endSide
                  (markerOffset markerLength marker MarkerEnd)
      in \<lparr>start = start, end' = end,
          marker = spread (key_marker props) (Some marker),
          color = spread (key_color props) None\<rparr>)"

subsection \<open>Circles and ellipses (elements/circle.ts, elements/ellipse.ts)\<close>

text \<open>
  Modelled from the spec: a circle has a center and a radius, an ellipse a center and
  a radius for each axis; circle.ts and ellipse.ts are missing.
\<close>

datatype Curve = Circle Point real | Ellipse Point Point

text \<open>
  Modelled from the spec: \<^verbatim>\<open>center()\<close> of a circle or an ellipse; circle.ts and
  ellipse.ts are missing.
\<close>

definition center_C :: "Curve \<Rightarrow> Point" where
  "center_C c = (case c of Circle m r \<Rightarrow> m | Ellipse m r \<Rightarrow> m)"

text \<open>
  Modelled from the spec: the point on the curve's boundary lying on the straight line
  from the center toward the target; a zero direction fails in \<^verbatim>\<open>normalize\<close>.
\<close>

definition boundaryTowards :: "Curve \<Rightarrow> Point \<Rightarrow> error + Point" where
  "boundaryTowards c target =
     (case c of
        Circle m r \<Rightarrow>
          (case normalize (subtract target m) r of
             Inl e \<Rightarrow> Inl e
           | Inr v \<Rightarrow> Inr (add m v))
      | Ellipse m r \<Rightarrow>
          (let v = subtract target m
           in if length_P v = 0 then Inl DomainError
              else Inr (add m (multiply v (1 / length_P (P (x v / x r) (y v / y r)))))))"

text \<open>
  Modelled from the spec: \<^verbatim>\<open>pointTowards(target, offset)\<close>, the boundary point
  toward the target, moved on by the offset along the same direction, away from the
  center (as \<^verbatim>\<open>pointAt\<close> does for a box); circle.ts and ellipse.ts are missing.
\<close>

definition pointTowards :: "Curve \<Rightarrow> Point \<Rightarrow> real \<Rightarrow> error + Point" where
  "pointTowards c target offset =
     (case boundaryTowards c target of
        Inl e \<Rightarrow> Inl e
      | Inr b \<Rightarrow>
          (case normalize (subtract target (center_C c)) offset of
             Inl e \<Rightarrow> Inl e
           | Inr v \<Rightarrow> Inr (add b v)))"

text \<open>\<^verbatim>\<open>DiagonalLine\<close>, line.ts lines 189 to 198.\<close>

definition DiagonalLine :: "real \<Rightarrow> Curve \<Rightarrow> Curve \<Rightarrow> LineOptions \<Rightarrow> error + LineProps" where
  "DiagonalLine markerLength startElement endElement props =
     (let marker = nullish (member_of (key_marker props)) (Single MarkerEnd)
      in case pointTowards startElement (center_C endElement)
                (markerOffset markerLength marker MarkerStart) of
           Inl e \<Rightarrow> Inl e
         | Inr startPoint \<Rightarrow>
             (case pointTowards endElement (center_C startElement)
                     (markerOffset markerLength marker MarkerEnd) of
                Inl e \<Rightarrow> Inl e
              | Inr endPoint \<Rightarrow>
                  Inr \<lparr>start = startPoint, end' = endPoint,
                       marker = spread (key_marker props) (Some marker),
                       color = spread (key_color props) None\<rparr>))"

subsection \<open>Elements as objects\<close>

text \<open>
  The elements of a diagram are objects. A store is the list of the objects allocated
  so far and a reference is an index into it; \<^verbatim>\<open>new\<close> appends an object. A method
  takes the store and the reference of its receiver, and returns the store it leaves
  and the reference of its result.
\<close>

datatype Element = LineElement LineProps | TextElement TextProps

type_synonym store = "Element list"

type_synonym reference = nat

definition new :: "store \<Rightarrow> Element \<Rightarrow> store \<times> reference" where
  "new s e = (s @ [e], length s)"

definition lineAt :: "store \<Rightarrow> reference \<Rightarrow> LineProps option" where
  "lineAt s r =
     (if r < length s then (case s ! r of LineElement l \<Rightarrow> Some l | TextElement t \<Rightarrow> None)
      else None)"

text \<open>\<^verbatim>\<open>line.shorten(startOffset, endOffset)\<close> on a receiver in the store.\<close>

definition shorten_method ::
  "store \<Rightarrow> reference \<Rightarrow> real \<Rightarrow> real option \<Rightarrow> (error + store \<times> reference) option" where
  "shorten_method s this startOffset endOffsetArgument =
     (case lineAt s this of
        None \<Rightarrow> None
      | Some l \<Rightarrow>
          Some (case Line_shorten l startOffset endOffsetArgument of
                  Inl e \<Rightarrow> Inl e
                | Inr l' \<Rightarrow> Inr (new s (LineElement l'))))"

text \<open>\<^verbatim>\<open>line.text(text, side, props)\<close> on a receiver in the store.\<close>

definition text_method ::
  "real \<Rightarrow> store \<Rightarrow> reference \<Rightarrow> TextContent \<Rightarrow> LineSide \<Rightarrow> TextOptions \<Rightarrow>
   (error + store \<times> reference) option" where
  "text_method lineToTextDistance s this text side props =
     (case lineAt s this of
        None \<Rightarrow> None
      | Some l \<Rightarrow>
          Some (case Line_text lineToTextDistance l text side props of
                  Inl e \<Rightarrow> Inl e
                | Inr t \<Rightarrow> Inr (new s (TextElement t))))"

subsection \<open>Vocabulary for the geometry of connectors\<close>

text \<open>
  The direction that leads away from a box at a side, and the side that faces a side.
  They are used to state where a connector ends and when two sides face each other.
\<close>

definition outward :: "BoxSide \<Rightarrow> Point" where
  "outward side =
     (case side of
        SideTop \<Rightarrow> P 0 (- 1)
      | SideRight \<Rightarrow> P 1 0
      | SideBottom \<Rightarrow> P 0 1
      | SideLeft \<Rightarrow> P (- 1) 0)"

definition opposite :: "BoxSide \<Rightarrow> BoxSide" where
  "opposite side =
     (case side of
        SideTop \<Rightarrow> SideBottom
      | SideRight \<Rightarrow> SideLeft
      | SideBottom \<Rightarrow> SideTop
      | SideLeft \<Rightarrow> SideRight)"

text \<open>
  A point on the boundary of a circle or an ellipse, and the curves whose radii are
  positive.
\<close>

definition onBoundary :: "Curve \<Rightarrow> Point \<Rightarrow> bool" where
  "onBoundary c p =
     (case c of
        Circle m r \<Rightarrow> length_P (subtract p m) = r
      | Ellipse m r \<Rightarrow> ((x p - x m) / x r)\<^sup>2 + ((y p - y m) / y r)\<^sup>2 = 1)"

definition positiveRadius :: "Curve \<Rightarrow> bool" where
  "positiveRadius c = (case c of Circle m r \<Rightarrow> 0 < r | Ellipse m r \<Rightarrow> 0 < x r \<and> 0 < y r)"

section \<open>Basic facts about points\<close>

lemma P_sel [simp]: "x (P a b) = a" "y (P a b) = b"
  by (simp_all add: P_def)

lemma P_eq_iff [simp]: "P a b = P c d \<longleftrightarrow> a = c \<and> b = d"
  by (simp add: P_def)

lemma Point_eq_iff: "(p::Point) = q \<longleftrightarrow> x p = x q \<and> y p = y q"
  by (cases p, cases q) simp

lemma absolute_sel [simp]: "x (absolute p) = \<bar>x p\<bar>" "y (absolute p) = \<bar>y p\<bar>"
  by (simp_all add: absolute_def)

lemma add_sel [simp]: "x (add p q) = x p + x q" "y (add p q) = y p + y q"
  by (simp_all add: add_def)

lemma subtract_sel [simp]: "x (subtract p q) = x p - x q" "y (subtract p q) = y p - y q"
  by (simp_all add: subtract_def)

lemma multiply_sel [simp]: "x (multiply p k) = x p * k" "y (multiply p k) = y p * k"
  by (simp_all add: multiply_def)

lemma rotate_P_sel [simp]:
  "x (rotate_P p LineLeft) = y p" "y (rotate_P p LineLeft) = - x p"
  "x (rotate_P p LineRight) = - y p" "y (rotate_P p LineRight) = x p"
  by (simp_all add: rotate_P_def)

lemma length_P_nonneg: "0 \<le> length_P p"
  by (simp add: length_P_def)

lemma length_P_eq_0_iff: "length_P p = 0 \<longleftrightarrow> x p = 0 \<and> y p = 0"
  by (simp add: length_P_def power2_eq_square [symmetric])

lemma length_P_multiply: "length_P (multiply p k) = \<bar>k\<bar> * length_P p"
proof -
  have "x p * k * (x p * k) + y p * k * (y p * k) = k\<^sup>2 * (x p * x p + y p * y p)"
    by (simp add: power2_eq_square algebra_simps)
  then show ?thesis
    by (simp add: length_P_def real_sqrt_mult)
qed

lemma length_P_rotate: "length_P (rotate_P p side) = length_P p"
  by (cases side) (simp_all add: length_P_def add.commute)

lemma length_P_horizontal: "length_P (P a 0) = \<bar>a\<bar>"
  by (simp add: length_P_def)

lemma length_P_vertical: "length_P (P 0 b) = \<bar>b\<bar>"
  by (simp add: length_P_def)

lemma normalize_Inr:
  "length_P p \<noteq> 0 \<Longrightarrow> normalize p t = Inr (multiply p (t / length_P p))"
  by (simp add: normalize_def)

lemma normalize_Inl: "length_P p = 0 \<Longrightarrow> normalize p t = Inl DomainError"
  by (simp add: normalize_def)

lemma length_P_scaled:
  "length_P p \<noteq> 0 \<Longrightarrow> length_P (multiply p (t / length_P p)) = \<bar>t\<bar>"
  using length_P_nonneg [of p] by (simp add: length_P_multiply)

section \<open>Basic facts about lines\<close>

lemma Line_vector_zero_iff: "length_P (Line_vector l) = 0 \<longleftrightarrow> start l = end' l"
  by (auto simp: length_P_eq_0_iff Line_vector_def Point_eq_iff)

lemma Line_shorten_Inr:
  assumes "start l \<noteq> end' l"
  shows "Line_shorten l s eo =
    Inr (l\<lparr>start := add (start l) (multiply (Line_vector l) (s / Line_length l)),
           end' := subtract (end' l) (multiply (Line_vector l) (nullish eo s / Line_length l))\<rparr>)"
proof -
  have "length_P (Line_vector l) \<noteq> 0"
    using assms by (simp add: Line_vector_zero_iff)
  then show ?thesis
    by (simp add: Line_shorten_def Let_def normalize_Inr Line_length_def)
qed

lemma Line_center_midpoint:
  "Line_center l = P ((x (start l) + x (end' l)) / 2) ((y (start l) + y (end' l)) / 2)"
  by (simp add: Line_center_def Line_boundingBox_def BoundingBox_def center_B_def add_def
      min_def abs_if field_simps)

lemma Line_text_Inr:
  assumes "start l \<noteq> end' l"
  shows "Line_text d l txt side props =
    (let offset = multiply (rotate_P (Line_vector l) side) (d / Line_length l);
         alignment = determineAlignment offset
     in Inr \<lparr>text_position = add (Line_center l) offset,
              text_text = txt,
              text_horizontalAlignment =
                spread (key_horizontalAlignment props) (Some (horizontalAlignment alignment)),
              text_verticalAlignment =
                spread (key_verticalAlignment props) (Some (verticalAlignment alignment)),
              text_color = spread (key_text_color props) (color l)\<rparr>)"
proof -
  have "length_P (rotate_P (Line_vector l) side) \<noteq> 0"
    using assms by (simp add: length_P_rotate Line_vector_zero_iff)
  then show ?thesis
    by (simp add: Line_text_def Let_def normalize_Inr Line_length_def length_P_rotate)
qed

lemma sqrt_10000: "sqrt 10000 = 100"
  by (rule real_sqrt_unique) simp_all

lemma sqrt_25: "sqrt 25 = 5"
  by (rule real_sqrt_unique) simp_all

section \<open>Alignment of labels\<close>

text \<open>
  Claim C1. For every offset vector, \<^verbatim>\<open>determineAlignment\<close> returns the horizontal
  alignment "center" whenever |offset.y| > 4 |offset.x|, and otherwise "left" for a
  positive and "right" for a negative offset.x; symmetrically it returns the vertical
  alignment "center" whenever |offset.x| > 4 |offset.y|, and otherwise "top" for a
  positive and "bottom" for a negative offset.y.
\<close>

theorem determineAlignment_rule:
  "(\<bar>y p\<bar> > 4 * \<bar>x p\<bar> \<longrightarrow> horizontalAlignment (determineAlignment p) = HCenter) \<and>
   (\<not> \<bar>y p\<bar> > 4 * \<bar>x p\<bar> \<and> x p > 0 \<longrightarrow> horizontalAlignment (determineAlignment p) = HLeft) \<and>
   (\<not> \<bar>y p\<bar> > 4 * \<bar>x p\<bar> \<and> x p < 0 \<longrightarrow> horizontalAlignment (determineAlignment p) = HRight) \<and>
   (\<bar>x p\<bar> > 4 * \<bar>y p\<bar> \<longrightarrow> verticalAlignment (determineAlignment p) = VCenter) \<and>
   (\<not> \<bar>x p\<bar> > 4 * \<bar>y p\<bar> \<and> y p > 0 \<longrightarrow> verticalAlignment (determineAlignment p) = VTop) \<and>
   (\<not> \<bar>x p\<bar> > 4 * \<bar>y p\<bar> \<and> y p < 0 \<longrightarrow> verticalAlignment (determineAlignment p) = VBottom)"
  unfolding determineAlignment_def Let_def absolute_sel by auto

theorem determineAlignment_rule_witness:
  "horizontalAlignment (determineAlignment (P 1 9)) = HCenter \<and>
   horizontalAlignment (determineAlignment (P 2 3)) = HLeft \<and>
   horizontalAlignment (determineAlignment (P (- 2) 3)) = HRight \<and>
   verticalAlignment (determineAlignment (P 9 (- 1))) = VCenter \<and>
   verticalAlignment (determineAlignment (P 2 3)) = VTop \<and>
   verticalAlignment (determineAlignment (P 2 (- 3))) = VBottom"
  using determineAlignment_rule [of "P 1 9"] determineAlignment_rule [of "P 2 3"]
    determineAlignment_rule [of "P (- 2) 3"] determineAlignment_rule [of "P 9 (- 1)"]
    determineAlignment_rule [of "P 2 (- 3)"]
  by simp

text \<open>
  Claim C10. On the boundary of the dead zone \<^verbatim>\<open>determineAlignment\<close> does not
  center: when |offset.y| = 4 |offset.x| the horizontal alignment follows the sign branch
  ("left" for a positive offset.x, "right" otherwise), symmetrically for the vertical
  alignment, and the zero offset is aligned "right" and "bottom".
\<close>

theorem determineAlignment_boundary:
  "(\<bar>y p\<bar> = 4 * \<bar>x p\<bar> \<longrightarrow>
      horizontalAlignment (determineAlignment p) = (if x p > 0 then HLeft else HRight)) \<and>
   (\<bar>x p\<bar> = 4 * \<bar>y p\<bar> \<longrightarrow>
      verticalAlignment (determineAlignment p) = (if y p > 0 then VTop else VBottom)) \<and>
   determineAlignment (P 0 0) = \<lparr>horizontalAlignment = HRight, verticalAlignment = VBottom\<rparr>"
  unfolding determineAlignment_def Let_def absolute_sel by auto

theorem determineAlignment_boundary_witness:
  "horizontalAlignment (determineAlignment (P 1 (- 4))) = HLeft \<and>
   horizontalAlignment (determineAlignment (P (- 1) 4)) = HRight \<and>
   verticalAlignment (determineAlignment (P 4 1)) = VTop \<and>
   verticalAlignment (determineAlignment (P (- 4) (- 1))) = VBottom"
  using determineAlignment_boundary [of "P 1 (- 4)"] determineAlignment_boundary [of "P (- 1) 4"]
    determineAlignment_boundary [of "P 4 1"] determineAlignment_boundary [of "P (- 4) (- 1)"]
  by simp

section \<open>Shortening a line\<close>

text \<open>
  Claim C4. \<^verbatim>\<open>Line.shorten(startOffset, endOffset)\<close> returns a new line whose start is
  the old start moved along the line's own direction by \<open>startOffset\<close> and whose end
  is the old end moved against that direction by \<open>endOffset\<close> (which defaults to
  \<open>startOffset\<close>); the other properties are kept. In particular the line from (0,0) to
  (100,0) shortened by 10 on each end is the line from (10,0) to (90,0).
\<close>

theorem Line_shorten_inward:
  "(start l \<noteq> end' l \<longrightarrow>
      (\<exists>l'. Line_shorten l s eo = Inr l' \<and>
         start l' = add (start l) (multiply (Line_vector l) (s / Line_length l)) \<and>
         end' l' = subtract (end' l) (multiply (Line_vector l) (nullish eo s / Line_length l)) \<and>
         length_P (subtract (start l') (start l)) = \<bar>s\<bar> \<and>
         length_P (subtract (end' l) (end' l')) = \<bar>nullish eo s\<bar> \<and>
         marker l' = marker l \<and> color l' = color l)) \<and>
   Line_shorten \<lparr>start = P 0 0, end' = P 100 0, marker = m, color = c\<rparr> 10 None =
     Inr \<lparr>start = P 10 0, end' = P 90 0, marker = m, color = c\<rparr>"
proof (intro conjI impI)
  assume ne: "start l \<noteq> end' l"
  then have len: "length_P (Line_vector l) \<noteq> 0"
    by (simp add: Line_vector_zero_iff)
  have a: "subtract (add (start l) v) (start l) = v" for v
    by (simp add: Point_eq_iff)
  have b: "subtract (end' l) (subtract (end' l) v) = v" for v
    by (simp add: Point_eq_iff)
  show "\<exists>l'. Line_shorten l s eo = Inr l' \<and>
         start l' = add (start l) (multiply (Line_vector l) (s / Line_length l)) \<and>
         end' l' = subtract (end' l) (multiply (Line_vector l) (nullish eo s / Line_length l)) \<and>
         length_P (subtract (start l') (start l)) = \<bar>s\<bar> \<and>
         length_P (subtract (end' l) (end' l')) = \<bar>nullish eo s\<bar> \<and>
         marker l' = marker l \<and> color l' = color l"
    using len by (simp add: Line_shorten_Inr [OF ne] a b Line_length_def length_P_scaled)
next
  show "Line_shorten \<lparr>start = P 0 0, end' = P 100 0, marker = m, color = c\<rparr> 10 None =
     Inr \<lparr>start = P 10 0, end' = P 90 0, marker = m, color = c\<rparr>"
    by (simp add: Line_shorten_def Let_def nullish_def Line_vector_def normalize_def length_P_def
      subtract_def add_def multiply_def sqrt_10000)
qed

theorem Line_shorten_inward_witness:
  "P 0 0 \<noteq> P 3 4 \<and>
   Line_shorten \<lparr>start = P 0 0, end' = P 3 4, marker = None, color = None\<rparr> 1 (Some 2) =
     Inr \<lparr>start = P (3 / 5) (4 / 5), end' = P (9 / 5) (12 / 5), marker = None, color = None\<rparr>"
proof -
  let ?l = "\<lparr>start = P 0 0, end' = P 3 4, marker = None, color = None\<rparr>"
  have len: "Line_length ?l = 5"
    by (simp add: Line_length_def Line_vector_def length_P_def sqrt_25)
  have ne: "start ?l \<noteq> end' ?l"
    by simp
  from Line_shorten_inward [of ?l 1 "Some 2"] ne
  obtain l' where l': "Line_shorten ?l 1 (Some 2) = Inr l'"
    and s: "start l' = add (start ?l) (multiply (Line_vector ?l) (1 / Line_length ?l))"
    and e: "end' l' = subtract (end' ?l) (multiply (Line_vector ?l) (nullish (Some 2) 1 / Line_length ?l))"
    and m: "marker l' = marker ?l" and c: "color l' = color ?l"
    by blast
  have "l' = \<lparr>start = P (3 / 5) (4 / 5), end' = P (9 / 5) (12 / 5), marker = None, color = None\<rparr>"
    using s e m c by (cases l') (simp add: len Line_vector_def nullish_def Point_eq_iff)
  with l' show ?thesis by simp
qed

section \<open>Degenerate geometry\<close>

text \<open>
  Claim C6. \<^verbatim>\<open>normalize\<close> fails with a domain error on a vector of zero length;
  consequently \<^verbatim>\<open>Line.shorten\<close> and \<^verbatim>\<open>Line.text\<close> fail on a line whose start
  equals its end, and produce no coordinates at all.
\<close>

theorem degenerate_geometry_fails:
  "(length_P v = 0 \<longrightarrow> normalize v t = Inl DomainError) \<and>
   (start l = end' l \<longrightarrow>
      Line_shorten l s eo = Inl DomainError \<and> Line_text d l txt side props = Inl DomainError)"
  by (simp add: normalize_Inl Line_shorten_def Line_text_def Let_def length_P_rotate
      Line_vector_zero_iff)

theorem degenerate_geometry_fails_witness:
  "length_P (P 0 0) = 0 \<and> normalize (P 0 0) 7 = Inl DomainError \<and>
   Line_shorten \<lparr>start = P 5 5, end' = P 5 5, marker = None, color = None\<rparr> 10 None = Inl DomainError \<and>
   Line_text 12 \<lparr>start = P 5 5, end' = P 5 5, marker = None, color = None\<rparr> (OneLine ''a'') LineLeft
     \<lparr>key_horizontalAlignment = None, key_verticalAlignment = None, key_text_color = None\<rparr> = Inl DomainError"
  using degenerate_geometry_fails [of "P 0 0" 7
      "\<lparr>start = P 5 5, end' = P 5 5, marker = None, color = None\<rparr>" 10 None 12 "OneLine ''a''" LineLeft
      "\<lparr>key_horizontalAlignment = None, key_verticalAlignment = None, key_text_color = None\<rparr>"]
  by (simp add: length_P_def)

section \<open>Placing a label beside a line\<close>

lemma Line_text_example:
  "Line_text 10 \<lparr>start = P 0 0, end' = P 100 0, marker = None, color = Some ''green''\<rparr>
     (OneLine ''a'') LineLeft
     \<lparr>key_horizontalAlignment = kh, key_verticalAlignment = None, key_text_color = None\<rparr> =
   Inr \<lparr>text_position = P 50 (- 10), text_text = OneLine ''a'',
        text_horizontalAlignment = spread kh (Some HCenter),
        text_verticalAlignment = Some VBottom, text_color = Some ''green''\<rparr>"
  by (simp add: Line_text_def Let_def Line_vector_def normalize_def length_P_def
      Line_center_midpoint determineAlignment_def spread_def sqrt_10000 add_def multiply_def
      rotate_P_def subtract_def split: option.split)

text \<open>
  Claim C5, as amended. For every line with distinct endpoints,
  \<^verbatim>\<open>Line.text(text, side, props)\<close> returns a text positioned at the line's midpoint plus
  the line's vector rotated by 90 degrees to the given side and normalized to
  \<^verbatim>\<open>lineToTextDistance\<close>. Its horizontal and vertical alignment are those of
  \<^verbatim>\<open>determineAlignment\<close> of that offset unless \<open>props\<close> gives them, and its color
  is the line's own color unless \<open>props\<close> gives one.
\<close>

theorem Line_text_placement:
  "start l \<noteq> end' l \<longrightarrow>
     (\<exists>t offset. Line_text d l txt side props = Inr t \<and>
        offset = multiply (rotate_P (Line_vector l) side) (d / Line_length l) \<and>
        length_P offset = \<bar>d\<bar> \<and>
        x offset * x (Line_vector l) + y offset * y (Line_vector l) = 0 \<and>
        text_position t =
          add (P ((x (start l) + x (end' l)) / 2) ((y (start l) + y (end' l)) / 2)) offset \<and>
        text_text t = txt \<and>
        text_horizontalAlignment t =
          (case key_horizontalAlignment props of
             None \<Rightarrow> Some (horizontalAlignment (determineAlignment offset))
           | Some h \<Rightarrow> h) \<and>
        text_verticalAlignment t =
          (case key_verticalAlignment props of
             None \<Rightarrow> Some (verticalAlignment (determineAlignment offset))
           | Some v \<Rightarrow> v) \<and>
        text_color t = (case key_text_color props of None \<Rightarrow> color l | Some c \<Rightarrow> c))"
proof
  assume ne: "start l \<noteq> end' l"
  let ?offset = "multiply (rotate_P (Line_vector l) side) (d / Line_length l)"
  have len: "length_P (rotate_P (Line_vector l) side) \<noteq> 0"
    using ne by (simp add: length_P_rotate Line_vector_zero_iff)
  have "length_P ?offset = \<bar>d\<bar>"
    using length_P_scaled [OF len, of d] by (simp add: Line_length_def length_P_rotate)
  moreover have "x ?offset * x (Line_vector l) + y ?offset * y (Line_vector l) = 0"
    by (cases side) simp_all
  ultimately show "\<exists>t offset. Line_text d l txt side props = Inr t \<and>
        offset = multiply (rotate_P (Line_vector l) side) (d / Line_length l) \<and>
        length_P offset = \<bar>d\<bar> \<and>
        x offset * x (Line_vector l) + y offset * y (Line_vector l) = 0 \<and>
        text_position t =
          add (P ((x (start l) + x (end' l)) / 2) ((y (start l) + y (end' l)) / 2)) offset \<and>
        text_text t = txt \<and>
        text_horizontalAlignment t =
          (case key_horizontalAlignment props of
             None \<Rightarrow> Some (horizontalAlignment (determineAlignment offset))
           | Some h \<Rightarrow> h) \<and>
        text_verticalAlignment t =
          (case key_verticalAlignment props of
             None \<Rightarrow> Some (verticalAlignment (determineAlignment offset))
           | Some v \<Rightarrow> v) \<and>
        text_color t = (case key_text_color props of None \<Rightarrow> color l | Some c \<Rightarrow> c)"
    by (simp add: Line_text_Inr [OF ne] Let_def spread_def Line_center_midpoint)
qed

theorem Line_text_placement_witness:
  "P 0 0 \<noteq> P 100 0 \<and>
   Line_text 10 \<lparr>start = P 0 0, end' = P 100 0, marker = None, color = Some ''green''\<rparr>
     (OneLine ''a'') LineLeft
     \<lparr>key_horizontalAlignment = None, key_verticalAlignment = None, key_text_color = None\<rparr> =
   Inr \<lparr>text_position = P 50 (- 10), text_text = OneLine ''a'',
        text_horizontalAlignment = Some HCenter,
        text_verticalAlignment = Some VBottom, text_color = Some ''green''\<rparr>"
proof -
  let ?l = "\<lparr>start = P 0 0, end' = P 100 0, marker = None, color = Some ''green''\<rparr>"
  let ?props = "\<lparr>key_horizontalAlignment = None, key_verticalAlignment = None, key_text_color = None\<rparr>"
  have len: "Line_length ?l = 100"
    by (simp add: Line_length_def Line_vector_def length_P_def sqrt_10000)
  have ne: "start ?l \<noteq> end' ?l"
    by simp
  from Line_text_placement [of ?l 10 "OneLine ''a''" LineLeft ?props] ne
  obtain t where t: "Line_text 10 ?l (OneLine ''a'') LineLeft ?props = Inr t"
    and p: "text_position t = add (P ((x (start ?l) + x (end' ?l)) / 2) ((y (start ?l) + y (end' ?l)) / 2))
          (multiply (rotate_P (Line_vector ?l) LineLeft) (10 / Line_length ?l))"
    and tt: "text_text t = OneLine ''a''"
    and h: "text_horizontalAlignment t =
          (case key_horizontalAlignment ?props of
             None \<Rightarrow> Some (horizontalAlignment (determineAlignment
                (multiply (rotate_P (Line_vector ?l) LineLeft) (10 / Line_length ?l))))
           | Some h \<Rightarrow> h)"
    and v: "text_verticalAlignment t =
          (case key_verticalAlignment ?props of
             None \<Rightarrow> Some (verticalAlignment (determineAlignment
                (multiply (rotate_P (Line_vector ?l) LineLeft) (10 / Line_length ?l))))
           | Some v \<Rightarrow> v)"
    and c: "text_color t = (case key_text_color ?props of None \<Rightarrow> color ?l | Some c \<Rightarrow> c)"
    by blast
  have "t = \<lparr>text_position = P 50 (- 10), text_text = OneLine ''a'',
        text_horizontalAlignment = Some HCenter,
        text_verticalAlignment = Some VBottom, text_color = Some ''green''\<rparr>"
    using p tt h v c
    by (cases t) (simp add: len Line_vector_def Point_eq_iff determineAlignment_def)
  with t show ?thesis by simp
qed

text \<open>
  The claim as stated, with the alignment always that of \<^verbatim>\<open>determineAlignment\<close>,
  fails: a horizontal alignment given in \<open>props\<close> overrides it, as the comment in line
  159 of line.ts intends.
\<close>

theorem Line_text_alignment_counterexample:
  "Line_text 10 \<lparr>start = P 0 0, end' = P 100 0, marker = None, color = Some ''green''\<rparr>
     (OneLine ''a'') LineLeft
     \<lparr>key_horizontalAlignment = Some (Some HLeft), key_verticalAlignment = None,
      key_text_color = None\<rparr> =
   Inr \<lparr>text_position = P 50 (- 10), text_text = OneLine ''a'',
        text_horizontalAlignment = Some HLeft,
        text_verticalAlignment = Some VBottom, text_color = Some ''green''\<rparr> \<and>
   horizontalAlignment (determineAlignment
     (multiply (rotate_P (Line_vector \<lparr>start = P 0 0, end' = P 100 0, marker = None,
        color = Some ''green''\<rparr>) LineLeft) (10 / 100))) = HCenter"
  by (simp add: Line_text_example spread_def determineAlignment_def Line_vector_def)

section \<open>Connecting two boxes\<close>

lemma pointAt_offset:
  "pointAt b side offset = add (pointAt b side 0) (multiply (outward side) offset)"
  by (cases side) (simp_all add: pointAt_def outward_def Point_eq_iff)

lemma outward_opposite: "outward (opposite side) = multiply (outward side) (- 1)"
  by (cases side) (simp_all add: outward_def opposite_def Point_eq_iff)

lemma length_P_outward: "length_P (outward side) = 1"
  by (cases side) (simp_all add: outward_def length_P_def)

lemma markerOffset_Several:
  "markerOffset m (Several ms) side = (if side \<in> set ms then m else 0)"
  by (simp add: markerOffset_def)

lemma ConnectionLine_sel:
  "start (ConnectionLine m bb e1 s1 e2 s2 props) =
     pointAt (bb e1) s1 (markerOffset m (nullish (member_of (key_marker props)) (Single MarkerEnd)) MarkerStart)"
  "end' (ConnectionLine m bb e1 s1 e2 s2 props) =
     pointAt (bb e2) s2 (markerOffset m (nullish (member_of (key_marker props)) (Single MarkerEnd)) MarkerEnd)"
  by (simp_all add: ConnectionLine_def Let_def)

text \<open>
  Claim C2, as amended. Let the chosen sides of two elements face each other: the end
  side is opposite to the start side, and the middle of the end side lies at the signed
  distance \<open>L\<close> from the middle of the start side in the direction that leads away from
  the start element. With a marker of physical length \<open>m\<close> at each end, each endpoint
  of the \<^verbatim>\<open>ConnectionLine\<close> is the middle of the named side moved away from its
  element by \<open>m\<close>, and the length of the line is |L - 2 m|; it is L - 2 m when the two
  markers fit between the elements (2 m \<le> L).
\<close>

theorem ConnectionLine_length:
  assumes markers: "key_marker props = Some (Some (Several ms))"
      "MarkerStart \<in> set ms" "MarkerEnd \<in> set ms"
    and facing: "endSide = opposite startSide"
    and separated: "subtract (pointAt (boundingBox endElement) endSide 0)
        (pointAt (boundingBox startElement) startSide 0) = multiply (outward startSide) L"
  shows "start (ConnectionLine m boundingBox startElement startSide endElement endSide props) =
      add (pointAt (boundingBox startElement) startSide 0) (multiply (outward startSide) m) \<and>
    end' (ConnectionLine m boundingBox startElement startSide endElement endSide props) =
      add (pointAt (boundingBox endElement) endSide 0) (multiply (outward endSide) m) \<and>
    Line_length (ConnectionLine m boundingBox startElement startSide endElement endSide props) =
      \<bar>L - 2 * m\<bar> \<and>
    (2 * m \<le> L \<longrightarrow>
      Line_length (ConnectionLine m boundingBox startElement startSide endElement endSide props) =
        L - 2 * m)"
proof -
  let ?line = "ConnectionLine m boundingBox startElement startSide endElement endSide props"
  let ?a = "pointAt (boundingBox startElement) startSide 0"
  let ?b = "pointAt (boundingBox endElement) endSide 0"
  have s: "start ?line = add ?a (multiply (outward startSide) m)"
    using markers
    by (simp add: ConnectionLine_sel member_of_def nullish_def markerOffset_Several
        pointAt_offset [of _ _ m])
  have e: "end' ?line = add ?b (multiply (outward endSide) m)"
    using markers
    by (simp add: ConnectionLine_sel member_of_def nullish_def markerOffset_Several
        pointAt_offset [of _ _ m])
  have sx: "x ?b - x ?a = x (outward startSide) * L" and sy: "y ?b - y ?a = y (outward startSide) * L"
    using separated by (simp_all add: Point_eq_iff)
  have "Line_vector ?line = multiply (outward startSide) (L - 2 * m)"
    unfolding Line_vector_def s e using sx sy
    by (simp add: facing outward_opposite Point_eq_iff algebra_simps)
  then have len: "Line_length ?line = \<bar>L - 2 * m\<bar>"
    by (simp add: Line_length_def length_P_multiply length_P_outward)
  from s e len show ?thesis
    by simp
qed

theorem ConnectionLine_length_witness:
  "Line_length (ConnectionLine 3 id \<lparr>position = P 0 0, size = P 10 10\<rparr> SideRight
     \<lparr>position = P 50 0, size = P 10 10\<rparr> SideLeft
     \<lparr>key_marker = Some (Some (Several [MarkerStart, MarkerEnd])), key_color = None\<rparr>) = 40 - 2 * 3"
proof -
  let ?props = "\<lparr>key_marker = Some (Some (Several [MarkerStart, MarkerEnd])), key_color = None\<rparr>"
  let ?b1 = "\<lparr>position = P 0 0, size = P 10 10\<rparr>"
  let ?b2 = "\<lparr>position = P 50 0, size = P 10 10\<rparr>"
  have "subtract (pointAt (id ?b2) SideLeft 0) (pointAt (id ?b1) SideRight 0) =
      multiply (outward SideRight) 40"
    by (simp add: pointAt_def center_B_def outward_def Point_eq_iff)
  from ConnectionLine_length [of ?props "[MarkerStart, MarkerEnd]" SideLeft SideRight id ?b2 ?b1 40 3, OF _ _ _ _ this]
  show ?thesis
    by (simp add: opposite_def)
qed

text \<open>
  The claim as stated, with the length L - 2 m for every distance, fails when the
  markers do not fit: two boxes at distance 2 with markers of length 3 give a line of
  length 4, whose start lies beyond its end.
\<close>

theorem ConnectionLine_length_counterexample:
  "length_P (subtract (pointAt \<lparr>position = P 12 0, size = P 10 10\<rparr> SideLeft 0)
      (pointAt \<lparr>position = P 0 0, size = P 10 10\<rparr> SideRight 0)) = 2 \<and>
   Line_length (ConnectionLine 3 id \<lparr>position = P 0 0, size = P 10 10\<rparr> SideRight
     \<lparr>position = P 12 0, size = P 10 10\<rparr> SideLeft
     \<lparr>key_marker = Some (Some (Several [MarkerStart, MarkerEnd])), key_color = None\<rparr>) = 4 \<and>
   Line_length (ConnectionLine 3 id \<lparr>position = P 0 0, size = P 10 10\<rparr> SideRight
     \<lparr>position = P 12 0, size = P 10 10\<rparr> SideLeft
     \<lparr>key_marker = Some (Some (Several [MarkerStart, MarkerEnd])), key_color = None\<rparr>) \<noteq> 2 - 2 * 3"
  by (simp add: ConnectionLine_def Let_def member_of_def nullish_def markerOffset_def pointAt_def
      center_B_def Line_length_def Line_vector_def length_P_def)

section \<open>Connecting two circles or ellipses\<close>

lemma length_P_subtract_zero_iff: "length_P (subtract p q) = 0 \<longleftrightarrow> p = q"
  by (auto simp: length_P_eq_0_iff Point_eq_iff)

lemma length_P_pos: "p \<noteq> q \<Longrightarrow> 0 < length_P (subtract p q)"
  using length_P_nonneg [of "subtract p q"] length_P_subtract_zero_iff [of p q] by simp

lemma boundaryTowards_Circle:
  assumes "0 < r" "target \<noteq> m"
  shows "\<exists>p t. boundaryTowards (Circle m r) target = Inr p \<and> onBoundary (Circle m r) p \<and>
    0 < t \<and> subtract p m = multiply (subtract target m) t"
proof -
  let ?v = "subtract target m"
  let ?t = "r / length_P ?v"
  let ?p = "add m (multiply ?v ?t)"
  have pos: "0 < length_P ?v"
    using assms by (simp add: length_P_pos)
  have d: "subtract ?p m = multiply ?v ?t"
    by (simp add: Point_eq_iff)
  have "boundaryTowards (Circle m r) target = Inr ?p"
    using pos by (simp add: boundaryTowards_def normalize_def)
  moreover have "onBoundary (Circle m r) ?p"
    using pos assms(1) by (simp add: onBoundary_def d length_P_multiply)
  moreover have "0 < ?t"
    using pos assms(1) by simp
  ultimately show ?thesis
    using d by blast
qed

lemma boundaryTowards_Ellipse:
  assumes "0 < x r" "0 < y r" "target \<noteq> m"
  shows "\<exists>p t. boundaryTowards (Ellipse m r) target = Inr p \<and> onBoundary (Ellipse m r) p \<and>
    0 < t \<and> subtract p m = multiply (subtract target m) t"
proof -
  let ?v = "subtract target m"
  let ?w = "P (x ?v / x r) (y ?v / y r)"
  let ?t = "1 / length_P ?w"
  let ?p = "add m (multiply ?v ?t)"
  have pos: "0 < length_P ?v"
    using assms by (simp add: length_P_pos)
  have "length_P ?w \<noteq> 0"
    using assms pos by (auto simp: length_P_eq_0_iff)
  then have wpos: "0 < length_P ?w"
    using length_P_nonneg [of ?w] by simp
  have sq: "(length_P ?w)\<^sup>2 = (x ?v / x r)\<^sup>2 + (y ?v / y r)\<^sup>2"
    by (simp add: length_P_def power2_eq_square)
  have d: "subtract ?p m = multiply ?v ?t"
    by (simp add: Point_eq_iff)
  have "boundaryTowards (Ellipse m r) target = Inr ?p"
    using pos by (simp add: boundaryTowards_def Let_def)
  moreover have "onBoundary (Ellipse m r) ?p"
  proof -
    have "((x ?p - x m) / x r)\<^sup>2 + ((y ?p - y m) / y r)\<^sup>2 =
        ((x ?v / x r)\<^sup>2 + (y ?v / y r)\<^sup>2) / (length_P ?w)\<^sup>2"
      by (simp add: power_divide power_mult_distrib add_divide_distrib mult.commute)
    also have "\<dots> = (length_P ?w)\<^sup>2 / (length_P ?w)\<^sup>2"
      unfolding sq by (rule refl)
    also have "\<dots> = 1"
      using wpos by simp
    finally show ?thesis
      by (simp add: onBoundary_def)
  qed
  moreover have "0 < ?t"
    using wpos by simp
  ultimately show ?thesis
    using d by blast
qed

lemma boundaryTowards_Inr:
  assumes "positiveRadius c" "target \<noteq> center_C c"
  shows "\<exists>p t. boundaryTowards c target = Inr p \<and> onBoundary c p \<and>
    0 < t \<and> subtract p (center_C c) = multiply (subtract target (center_C c)) t"
proof (cases c)
  case (Circle m r)
  with assms show ?thesis
    using boundaryTowards_Circle [of r target m] by (simp add: positiveRadius_def center_C_def)
next
  case (Ellipse m r)
  with assms show ?thesis
    using boundaryTowards_Ellipse [of r target m] by (simp add: positiveRadius_def center_C_def)
qed

lemma pointTowards_Inr:
  assumes "boundaryTowards c target = Inr p" "target \<noteq> center_C c"
  shows "pointTowards c target offset =
    Inr (add p (multiply (subtract target (center_C c))
      (offset / length_P (subtract target (center_C c)))))"
  using assms by (simp add: pointTowards_def normalize_def length_P_subtract_zero_iff)

lemma DiagonalLine_circles:
  "DiagonalLine m (Circle (P 0 0) 16) (Circle (P 200 0) 16) props =
     Inr \<lparr>start = P (16 + markerOffset m (nullish (member_of (key_marker props)) (Single MarkerEnd)) MarkerStart) 0,
          end' = P (184 - markerOffset m (nullish (member_of (key_marker props)) (Single MarkerEnd)) MarkerEnd) 0,
          marker = spread (key_marker props) (Some (nullish (member_of (key_marker props)) (Single MarkerEnd))),
          color = spread (key_color props) None\<rparr>"
proof -
  have a: "subtract (P 200 0) (P 0 0) = P 200 0" and b: "subtract (P 0 0) (P 200 0) = P (- 200) 0"
    by (simp_all add: subtract_def)
  show ?thesis
    by (simp add: DiagonalLine_def Let_def pointTowards_def boundaryTowards_def center_C_def
        normalize_def a b length_P_horizontal add_def multiply_def)
qed

lemma DiagonalLine_general:
  assumes "positiveRadius startElement" "positiveRadius endElement"
    and "center_C startElement \<noteq> center_C endElement"
  shows "\<exists>l p q s t. DiagonalLine m startElement endElement props = Inr l \<and>
      onBoundary startElement p \<and> 0 < s \<and>
      subtract p (center_C startElement) =
        multiply (subtract (center_C endElement) (center_C startElement)) s \<and>
      onBoundary endElement q \<and> 0 < t \<and>
      subtract q (center_C endElement) =
        multiply (subtract (center_C startElement) (center_C endElement)) t \<and>
      start l = add p (multiply (subtract (center_C endElement) (center_C startElement))
        (markerOffset m (nullish (member_of (key_marker props)) (Single MarkerEnd)) MarkerStart /
         length_P (subtract (center_C endElement) (center_C startElement)))) \<and>
      end' l = add q (multiply (subtract (center_C startElement) (center_C endElement))
        (markerOffset m (nullish (member_of (key_marker props)) (Single MarkerEnd)) MarkerEnd /
         length_P (subtract (center_C startElement) (center_C endElement)))) \<and>
      (markerOffset m (nullish (member_of (key_marker props)) (Single MarkerEnd)) MarkerStart = 0
         \<longrightarrow> start l = p) \<and>
      (markerOffset m (nullish (member_of (key_marker props)) (Single MarkerEnd)) MarkerEnd = 0
         \<longrightarrow> end' l = q)"
proof -
  let ?a = "center_C startElement" and ?b = "center_C endElement"
  let ?marker = "nullish (member_of (key_marker props)) (Single MarkerEnd)"
  from boundaryTowards_Inr [OF assms(1), of ?b] assms(3)
  obtain p s where p: "boundaryTowards startElement ?b = Inr p" "onBoundary startElement p"
      "0 < s" "subtract p ?a = multiply (subtract ?b ?a) s"
    by metis
  from boundaryTowards_Inr [OF assms(2), of ?a] assms(3)
  obtain q t where q: "boundaryTowards endElement ?a = Inr q" "onBoundary endElement q"
      "0 < t" "subtract q ?b = multiply (subtract ?a ?b) t"
    by metis
  have ps: "pointTowards startElement ?b off =
      Inr (add p (multiply (subtract ?b ?a) (off / length_P (subtract ?b ?a))))" for off
    using pointTowards_Inr [OF p(1)] assms(3) by simp
  have qs: "pointTowards endElement ?a off =
      Inr (add q (multiply (subtract ?a ?b) (off / length_P (subtract ?a ?b))))" for off
    using pointTowards_Inr [OF q(1)] assms(3) by simp
  let ?l = "\<lparr>start = add p (multiply (subtract ?b ?a)
        (markerOffset m ?marker MarkerStart / length_P (subtract ?b ?a))),
      end' = add q (multiply (subtract ?a ?b)
        (markerOffset m ?marker MarkerEnd / length_P (subtract ?a ?b))),
      marker = spread (key_marker props) (Some ?marker),
      color = spread (key_color props) None\<rparr>"
  have l: "DiagonalLine m startElement endElement props = Inr ?l"
    by (simp add: DiagonalLine_def Let_def ps qs)
  have z: "add r (multiply v 0) = r" for r v :: Point
    by (simp add: Point_eq_iff)
  have "onBoundary startElement p \<and> 0 < s \<and> subtract p ?a = multiply (subtract ?b ?a) s \<and>
      onBoundary endElement q \<and> 0 < t \<and> subtract q ?b = multiply (subtract ?a ?b) t \<and>
      start ?l = add p (multiply (subtract ?b ?a)
        (markerOffset m ?marker MarkerStart / length_P (subtract ?b ?a))) \<and>
      end' ?l = add q (multiply (subtract ?a ?b)
        (markerOffset m ?marker MarkerEnd / length_P (subtract ?a ?b))) \<and>
      (markerOffset m ?marker MarkerStart = 0 \<longrightarrow> start ?l = p) \<and>
      (markerOffset m ?marker MarkerEnd = 0 \<longrightarrow> end' ?l = q)"
    using p q by (simp add: z)
  with l show "\<exists>l p q s t. DiagonalLine m startElement endElement props = Inr l \<and>
      onBoundary startElement p \<and> 0 < s \<and>
      subtract p (center_C startElement) =
        multiply (subtract (center_C endElement) (center_C startElement)) s \<and>
      onBoundary endElement q \<and> 0 < t \<and>
      subtract q (center_C endElement) =
        multiply (subtract (center_C startElement) (center_C endElement)) t \<and>
      start l = add p (multiply (subtract (center_C endElement) (center_C startElement))
        (markerOffset m (nullish (member_of (key_marker props)) (Single MarkerEnd)) MarkerStart /
         length_P (subtract (center_C endElement) (center_C startElement)))) \<and>
      end' l = add q (multiply (subtract (center_C startElement) (center_C endElement))
        (markerOffset m (nullish (member_of (key_marker props)) (Single MarkerEnd)) MarkerEnd /
         length_P (subtract (center_C startElement) (center_C endElement)))) \<and>
      (markerOffset m (nullish (member_of (key_marker props)) (Single MarkerEnd)) MarkerStart = 0
         \<longrightarrow> start l = p) \<and>
      (markerOffset m (nullish (member_of (key_marker props)) (Single MarkerEnd)) MarkerEnd = 0
         \<longrightarrow> end' l = q)"
    by blast
qed

text \<open>
  Claim C3, as amended. For two circles or ellipses with positive radii and distinct
  centers, \<^verbatim>\<open>DiagonalLine\<close> returns a line. Each endpoint lies on the straight line
  from its shape's center toward the other shape's center: it is the point of the
  shape's boundary on that line, moved on by the marker offset of that end, and it is
  that boundary point itself when no marker is present at that end. For two circles of
  radius 16 centered at (0,0) and (200,0) the endpoints are exactly (16,0) and (184,0)
  when the line has no markers; with the default properties, which put a marker at the
  end, they are (16,0) and (184 - m, 0), where \<open>m\<close> is the physical length of a
  marker.
\<close>

theorem DiagonalLine_endpoints:
  "(positiveRadius startElement \<and> positiveRadius endElement \<and>
    center_C startElement \<noteq> center_C endElement \<longrightarrow>
    (\<exists>l p q s t. DiagonalLine m startElement endElement props = Inr l \<and>
      onBoundary startElement p \<and> 0 < s \<and>
      subtract p (center_C startElement) =
        multiply (subtract (center_C endElement) (center_C startElement)) s \<and>
      onBoundary endElement q \<and> 0 < t \<and>
      subtract q (center_C endElement) =
        multiply (subtract (center_C startElement) (center_C endElement)) t \<and>
      start l = add p (multiply (subtract (center_C endElement) (center_C startElement))
        (markerOffset m (nullish (member_of (key_marker props)) (Single MarkerEnd)) MarkerStart /
         length_P (subtract (center_C endElement) (center_C startElement)))) \<and>
      end' l = add q (multiply (subtract (center_C startElement) (center_C endElement))
        (markerOffset m (nullish (member_of (key_marker props)) (Single MarkerEnd)) MarkerEnd /
         length_P (subtract (center_C startElement) (center_C endElement)))) \<and>
      (markerOffset m (nullish (member_of (key_marker props)) (Single MarkerEnd)) MarkerStart = 0
         \<longrightarrow> start l = p) \<and>
      (markerOffset m (nullish (member_of (key_marker props)) (Single MarkerEnd)) MarkerEnd = 0
         \<longrightarrow> end' l = q))) \<and>
   DiagonalLine m (Circle (P 0 0) 16) (Circle (P 200 0) 16)
       \<lparr>key_marker = Some (Some (Several [])), key_color = None\<rparr> =
     Inr \<lparr>start = P 16 0, end' = P 184 0, marker = Some (Several []), color = None\<rparr> \<and>
   DiagonalLine m (Circle (P 0 0) 16) (Circle (P 200 0) 16)
       \<lparr>key_marker = None, key_color = None\<rparr> =
     Inr \<lparr>start = P 16 0, end' = P (184 - m) 0, marker = Some (Single MarkerEnd), color = None\<rparr>"
  using DiagonalLine_general [of startElement endElement m props]
  by (simp add: DiagonalLine_circles member_of_def nullish_def spread_def markerOffset_def)

theorem DiagonalLine_endpoints_witness:
  "positiveRadius (Circle (P 0 0) 16) \<and> positiveRadius (Circle (P 200 0) 16) \<and>
   center_C (Circle (P 0 0) 16) \<noteq> center_C (Circle (P 200 0) 16) \<and>
   (\<exists>l. DiagonalLine 3 (Circle (P 0 0) 16) (Circle (P 200 0) 16)
          \<lparr>key_marker = None, key_color = None\<rparr> = Inr l \<and>
        onBoundary (Circle (P 0 0) 16) (start l))"
proof -
  let ?a = "Circle (P 0 0) 16" and ?b = "Circle (P 200 0) 16"
  let ?props = "\<lparr>key_marker = None, key_color = None\<rparr>"
  have h: "positiveRadius ?a \<and> positiveRadius ?b \<and> center_C ?a \<noteq> center_C ?b"
    by (simp add: positiveRadius_def center_C_def)
  from DiagonalLine_endpoints [of ?a ?b 3 ?props] h
  obtain l p where l: "DiagonalLine 3 ?a ?b ?props = Inr l" and p: "onBoundary ?a p"
    and s: "markerOffset 3 (nullish (member_of (key_marker ?props)) (Single MarkerEnd)) MarkerStart = 0
      \<longrightarrow> start l = p"
    by blast
  from s have "start l = p"
    by (simp add: markerOffset_def nullish_def member_of_def)
  with h l p show ?thesis
    by blast
qed

text \<open>
  The claim as stated, with the endpoints (16,0) and (184,0) under the default
  properties, fails: the default marker is \<^verbatim>\<open>'end'\<close>, and line 196 of line.ts hands
  its offset to \<^verbatim>\<open>pointTowards\<close>. With a marker of length 3 the line ends at
  (181,0).
\<close>

theorem DiagonalLine_endpoints_counterexample:
  "DiagonalLine 3 (Circle (P 0 0) 16) (Circle (P 200 0) 16) \<lparr>key_marker = None, key_color = None\<rparr> =
     Inr \<lparr>start = P 16 0, end' = P 181 0, marker = Some (Single MarkerEnd), color = None\<rparr> \<and>
   DiagonalLine 3 (Circle (P 0 0) 16) (Circle (P 200 0) 16) \<lparr>key_marker = None, key_color = None\<rparr> \<noteq>
     Inr \<lparr>start = P 16 0, end' = P 184 0, marker = Some (Single MarkerEnd), color = None\<rparr>"
  by (simp add: DiagonalLine_circles member_of_def nullish_def spread_def markerOffset_def)

section \<open>Estimating the size of a text\<close>

lemma longestLine_simps [simp]:
  "longestLine [] = 0" "longestLine (l # ls) = max (length l) (longestLine ls)"
  by (simp_all add: longestLine_def)

lemma longestLine_append: "longestLine (ks @ ls) = max (longestLine ks) (longestLine ls)"
  by (induction ks) simp_all

lemma longestLine_insert:
  "longestLine ls \<le> longestLine (take i ls @ [l] @ drop i ls)"
proof -
  have "longestLine ls = longestLine (take i ls @ drop i ls)"
    by simp
  also have "\<dots> \<le> longestLine (take i ls @ [l] @ drop i ls)"
    unfolding longestLine_append longestLine_simps by linarith
  finally show ?thesis .
qed

lemma longestLine_update:
  assumes "i < length ls" "length (ls ! i) \<le> length l"
  shows "longestLine ls \<le> longestLine (ls[i := l])"
proof -
  have "longestLine ls = longestLine (take i ls @ [ls ! i] @ drop (Suc i) ls)"
    using assms(1) by (simp add: id_take_nth_drop [symmetric])
  also have "\<dots> \<le> longestLine (take i ls @ [l] @ drop (Suc i) ls)"
    unfolding longestLine_append longestLine_simps using assms(2) by linarith
  also have "\<dots> = longestLine (ls[i := l])"
    using assms(1) by (simp add: upd_conv_take_nth_drop)
  finally show ?thesis .
qed

text \<open>
  Claim C9. \<^verbatim>\<open>estimateTextSizeWithMargin\<close> is monotonically non-decreasing in both
  inputs: with a non-negative character width and line height, adding a line at any
  place never decreases the returned height (nor the width), and replacing a line by a
  line that is at least as long never decreases the returned width and keeps the
  height. The result is a function of the lines alone, so it is deterministic.
\<close>

theorem estimateTextSizeWithMargin_monotone:
  assumes "0 \<le> characterWidth" "0 \<le> lineHeight"
  shows "y (estimateTextSizeWithMargin characterWidth lineHeight margin lines) \<le>
      y (estimateTextSizeWithMargin characterWidth lineHeight margin
           (take i lines @ [line] @ drop i lines)) \<and>
    x (estimateTextSizeWithMargin characterWidth lineHeight margin lines) \<le>
      x (estimateTextSizeWithMargin characterWidth lineHeight margin
           (take i lines @ [line] @ drop i lines)) \<and>
    (i < length lines \<and> length (lines ! i) \<le> length line \<longrightarrow>
       x (estimateTextSizeWithMargin characterWidth lineHeight margin lines) \<le>
         x (estimateTextSizeWithMargin characterWidth lineHeight margin (lines[i := line])) \<and>
       y (estimateTextSizeWithMargin characterWidth lineHeight margin lines) =
         y (estimateTextSizeWithMargin characterWidth lineHeight margin (lines[i := line])))"
proof -
  have h: "lineHeight * real (length lines) \<le>
      lineHeight * real (length (take i lines @ [line] @ drop i lines))"
    using assms(2) by (intro mult_left_mono) simp_all
  have w: "characterWidth * real (longestLine lines) \<le>
      characterWidth * real (longestLine (take i lines @ [line] @ drop i lines))"
    using assms(1) longestLine_insert [of lines i line] by (intro mult_left_mono) simp_all
  have u: "characterWidth * real (longestLine lines) \<le>
      characterWidth * real (longestLine (lines[i := line]))"
    if "i < length lines" "length (lines ! i) \<le> length line"
    using assms(1) longestLine_update [OF that] by (intro mult_left_mono) simp_all
  from h w u show ?thesis
    by (simp add: estimateTextSizeWithMargin_def)
qed

theorem estimateTextSizeWithMargin_monotone_witness:
  "(0::real) \<le> 7 \<and> (0::real) \<le> 20 \<and>
   estimateTextSizeWithMargin 7 20 (P 5 5) [''ab'', ''abcd''] = P 38 50 \<and>
   estimateTextSizeWithMargin 7 20 (P 5 5) [''ab'', ''abcde'', ''abcd''] = P 45 70 \<and>
   y (estimateTextSizeWithMargin 7 20 (P 5 5) [''ab'', ''abcd'']) \<le>
     y (estimateTextSizeWithMargin 7 20 (P 5 5) [''ab'', ''abcde'', ''abcd''])"
  using estimateTextSizeWithMargin_monotone [of 7 20 "P 5 5" "[''ab'', ''abcd'']" 1 "''abcde''"]
  by (simp add: estimateTextSizeWithMargin_def add_def multiply_def)

section \<open>Methods that derive a new element\<close>

lemma new_keeps:
  "new s e = (s', r) \<Longrightarrow>
     r = length s \<and> length s' = Suc (length s) \<and> (\<forall>q < length s. s' ! q = s ! q) \<and> s' ! r = e"
  by (auto simp: new_def nth_append)

lemma lineAt_new:
  "new s e = (s', r) \<Longrightarrow> this < length s \<Longrightarrow> lineAt s' this = lineAt s this"
  by (auto simp: new_def lineAt_def nth_append)

lemma lineAt_Some_less: "lineAt s this = Some l \<Longrightarrow> this < length s"
  by (simp add: lineAt_def split: if_splits)

lemma shorten_method_example:
  "shorten_method [LineElement \<lparr>start = P 0 0, end' = P 100 0, marker = None, color = None\<rparr>] 0 10 None =
     Some (Inr ([LineElement \<lparr>start = P 0 0, end' = P 100 0, marker = None, color = None\<rparr>,
                 LineElement \<lparr>start = P 10 0, end' = P 90 0, marker = None, color = None\<rparr>], 1))"
  by (simp add: shorten_method_def lineAt_def new_def Line_shorten_def Let_def nullish_def
      Line_vector_def normalize_def length_P_def subtract_def add_def multiply_def sqrt_10000)

text \<open>
  Claim C8. \<^verbatim>\<open>Line.shorten\<close> and \<^verbatim>\<open>Line.text\<close> never mutate their receiver: when
  they return, the result is a newly constructed \<^verbatim>\<open>Line\<close> or \<^verbatim>\<open>Text\<close> at a
  reference that was not allocated before, every object of the store is what it was
  before the call, and so are the stored properties of the receiver.
\<close>

theorem methods_do_not_mutate:
  "(shorten_method s this startOffset endOffset = Some (Inr (s', r)) \<longrightarrow>
      r = length s \<and> length s' = Suc (length s) \<and> (\<forall>q < length s. s' ! q = s ! q) \<and>
      lineAt s' this = lineAt s this \<and> lineAt s this \<noteq> None \<and>
      (\<exists>l. Line_shorten (the (lineAt s this)) startOffset endOffset = Inr l \<and>
           s' ! r = LineElement l)) \<and>
   (text_method d s this text side props = Some (Inr (s'', r')) \<longrightarrow>
      r' = length s \<and> length s'' = Suc (length s) \<and> (\<forall>q < length s. s'' ! q = s ! q) \<and>
      lineAt s'' this = lineAt s this \<and> lineAt s this \<noteq> None \<and>
      (\<exists>t. Line_text d (the (lineAt s this)) text side props = Inr t \<and>
           s'' ! r' = TextElement t))"
proof (rule conjI; rule impI)
  assume a: "shorten_method s this startOffset endOffset = Some (Inr (s', r))"
  then obtain l l' where l: "lineAt s this = Some l"
    and l': "Line_shorten l startOffset endOffset = Inr l'"
    and n: "new s (LineElement l') = (s', r)"
    by (auto simp: shorten_method_def split: option.splits sum.splits)
  from new_keeps [OF n] lineAt_new [OF n lineAt_Some_less [OF l]] l l'
  show "r = length s \<and> length s' = Suc (length s) \<and> (\<forall>q < length s. s' ! q = s ! q) \<and>
      lineAt s' this = lineAt s this \<and> lineAt s this \<noteq> None \<and>
      (\<exists>l. Line_shorten (the (lineAt s this)) startOffset endOffset = Inr l \<and>
           s' ! r = LineElement l)"
    by auto
next
  assume a: "text_method d s this text side props = Some (Inr (s'', r'))"
  then obtain l t where l: "lineAt s this = Some l"
    and t: "Line_text d l text side props = Inr t"
    and n: "new s (TextElement t) = (s'', r')"
    by (auto simp: text_method_def split: option.splits sum.splits)
  from new_keeps [OF n] lineAt_new [OF n lineAt_Some_less [OF l]] l t
  show "r' = length s \<and> length s'' = Suc (length s) \<and> (\<forall>q < length s. s'' ! q = s ! q) \<and>
      lineAt s'' this = lineAt s this \<and> lineAt s this \<noteq> None \<and>
      (\<exists>t. Line_text d (the (lineAt s this)) text side props = Inr t \<and>
           s'' ! r' = TextElement t)"
    by auto
qed

theorem methods_do_not_mutate_witness:
  "shorten_method [LineElement \<lparr>start = P 0 0, end' = P 100 0, marker = None, color = None\<rparr>] 0 10 None =
     Some (Inr ([LineElement \<lparr>start = P 0 0, end' = P 100 0, marker = None, color = None\<rparr>,
                 LineElement \<lparr>start = P 10 0, end' = P 90 0, marker = None, color = None\<rparr>], 1)) \<and>
   lineAt [LineElement \<lparr>start = P 0 0, end' = P 100 0, marker = None, color = None\<rparr>,
           LineElement \<lparr>start = P 10 0, end' = P 90 0, marker = None, color = None\<rparr>] 0 =
     lineAt [LineElement \<lparr>start = P 0 0, end' = P 100 0, marker = None, color = None\<rparr>] 0"
  using shorten_method_example
    methods_do_not_mutate [of "[LineElement \<lparr>start = P 0 0, end' = P 100 0, marker = None, color = None\<rparr>]"
      0 10 None
      "[LineElement \<lparr>start = P 0 0, end' = P 100 0, marker = None, color = None\<rparr>,
        LineElement \<lparr>start = P 10 0, end' = P 90 0, marker = None, color = None\<rparr>]" 1]
  by blast

section \<open>Rounding of coordinates\<close>

lemma round3_close: "\<bar>round3 a - a\<bar> \<le> 1 / 2000"
proof -
  have "\<bar>of_int (round (a * 1000)) - a * 1000\<bar> \<le> 1 / 2"
    by (rule of_int_round_abs_le)
  then show ?thesis
    by (simp add: round3_def field_simps abs_if split: if_splits)
qed

lemma round3_grid: "\<exists>k::int. round3 a = of_int k / 1000"
  by (auto simp: round3_def)

lemma Line_encode_rounds:
  \<open>Line_encode showNumber attributes markerAttributes children l prefix =
     prefix @ ''<line'' @ attributes
       @ '' x1="'' @ showNumber (round3 (x (start l))) @ ''"''
       @ '' y1="'' @ showNumber (round3 (y (start l))) @ ''"''
       @ '' x2="'' @ showNumber (round3 (x (end' l))) @ ''"''
       @ '' y2="'' @ showNumber (round3 (y (end' l))) @ ''"''
       @ markerAttributes (\<lambda>_. Line_length l) (marker l) (color l)
       @ ''>'' @ children prefix @ ''</line>'' @ [CHR 0x0A]\<close>
  by (simp add: Line_encode_def Let_def round3_P_def)

lemma Line_length_exact:
  "Line_length l = sqrt ((x (end' l) - x (start l))\<^sup>2 + (y (end' l) - y (start l))\<^sup>2)"
  by (simp add: Line_length_def Line_vector_def length_P_def power2_eq_square)

lemma DiagonalLine_sel:
  assumes "DiagonalLine m c1 c2 props = Inr l"
  shows "pointTowards c1 (center_C c2)
      (markerOffset m (nullish (member_of (key_marker props)) (Single MarkerEnd)) MarkerStart) =
      Inr (start l)"
    and "pointTowards c2 (center_C c1)
      (markerOffset m (nullish (member_of (key_marker props)) (Single MarkerEnd)) MarkerEnd) =
      Inr (end' l)"
  using assms by (auto simp: DiagonalLine_def Let_def split: sum.splits)

lemma round3_example: "round3 (4 / 15) = 267 / 1000" "round3 (1 / 5) = 1 / 5"
  by (simp_all add: round3_def round_def)

text \<open>
  Claim C7. Coordinates are rounded to three decimal places only when a line is
  serialized. The attributes x1, y1, x2 and y2 that \<^verbatim>\<open>_encode\<close> emits are the
  roundings of the stored start and end, each a multiple of 1/1000 within 1/2000 of the
  stored coordinate; the marker attributes receive the length of the stored line. The
  computations \<^verbatim>\<open>vector\<close>, \<^verbatim>\<open>length\<close>, \<^verbatim>\<open>shorten\<close>, \<^verbatim>\<open>text\<close>,
  \<^verbatim>\<open>ConnectionLine\<close> and \<^verbatim>\<open>DiagonalLine\<close> yield the exact values: differences,
  the Euclidean length, the scaled displacements and the points of \<^verbatim>\<open>pointAt\<close> and
  \<^verbatim>\<open>pointTowards\<close> as they are.
\<close>

theorem rounding_only_in_encode:
  \<open>Line_encode showNumber attributes markerAttributes children l prefix =
     prefix @ ''<line'' @ attributes
       @ '' x1="'' @ showNumber (round3 (x (start l))) @ ''"''
       @ '' y1="'' @ showNumber (round3 (y (start l))) @ ''"''
       @ '' x2="'' @ showNumber (round3 (x (end' l))) @ ''"''
       @ '' y2="'' @ showNumber (round3 (y (end' l))) @ ''"''
       @ markerAttributes (\<lambda>_. Line_length l) (marker l) (color l)
       @ ''>'' @ children prefix @ ''</line>'' @ [CHR 0x0A] \<and>
   \<bar>round3 a - a\<bar> \<le> 1 / 2000 \<and> (\<exists>k::int. round3 a = of_int k / 1000) \<and>
   Line_vector l = P (x (end' l) - x (start l)) (y (end' l) - y (start l)) \<and>
   Line_length l = sqrt ((x (end' l) - x (start l))\<^sup>2 + (y (end' l) - y (start l))\<^sup>2) \<and>
   (start l \<noteq> end' l \<longrightarrow>
      Line_shorten l s eo =
        Inr (l\<lparr>start := P (x (start l) + (x (end' l) - x (start l)) * (s / Line_length l))
                           (y (start l) + (y (end' l) - y (start l)) * (s / Line_length l)),
               end' := P (x (end' l) - (x (end' l) - x (start l)) * (nullish eo s / Line_length l))
                         (y (end' l) - (y (end' l) - y (start l)) * (nullish eo s / Line_length l))\<rparr>) \<and>
      (\<exists>t. Line_text d l txt side props = Inr t \<and>
         text_position t =
           P ((x (start l) + x (end' l)) / 2 + x (rotate_P (Line_vector l) side) * (d / Line_length l))
             ((y (start l) + y (end' l)) / 2 + y (rotate_P (Line_vector l) side) * (d / Line_length l)))) \<and>
   start (ConnectionLine m boundingBox e1 s1 e2 s2 options) =
     pointAt (boundingBox e1) s1
       (markerOffset m (nullish (member_of (key_marker options)) (Single MarkerEnd)) MarkerStart) \<and>
   end' (ConnectionLine m boundingBox e1 s1 e2 s2 options) =
     pointAt (boundingBox e2) s2
       (markerOffset m (nullish (member_of (key_marker options)) (Single MarkerEnd)) MarkerEnd) \<and>
   (DiagonalLine m c1 c2 options = Inr dl \<longrightarrow>
      pointTowards c1 (center_C c2)
        (markerOffset m (nullish (member_of (key_marker options)) (Single MarkerEnd)) MarkerStart) =
        Inr (start dl) \<and>
      pointTowards c2 (center_C c1)
        (markerOffset m (nullish (member_of (key_marker options)) (Single MarkerEnd)) MarkerEnd) =
        Inr (end' dl))\<close>
proof -
  have v: "Line_vector l = P (x (end' l) - x (start l)) (y (end' l) - y (start l))"
    by (simp add: Line_vector_def subtract_def)
  have sh: "Line_shorten l s eo =
        Inr (l\<lparr>start := P (x (start l) + (x (end' l) - x (start l)) * (s / Line_length l))
                           (y (start l) + (y (end' l) - y (start l)) * (s / Line_length l)),
               end' := P (x (end' l) - (x (end' l) - x (start l)) * (nullish eo s / Line_length l))
                         (y (end' l) - (y (end' l) - y (start l)) * (nullish eo s / Line_length l))\<rparr>)"
    if "start l \<noteq> end' l"
    by (simp add: Line_shorten_Inr [OF that] v add_def subtract_def multiply_def)
  have tx: "\<exists>t. Line_text d l txt side props = Inr t \<and>
         text_position t =
           P ((x (start l) + x (end' l)) / 2 + x (rotate_P (Line_vector l) side) * (d / Line_length l))
             ((y (start l) + y (end' l)) / 2 + y (rotate_P (Line_vector l) side) * (d / Line_length l))"
    if "start l \<noteq> end' l"
    by (simp add: Line_text_Inr [OF that] Let_def Line_center_midpoint add_def multiply_def)
  show ?thesis
    using Line_encode_rounds [of showNumber attributes markerAttributes children l prefix]
      round3_close [of a] round3_grid [of a] v Line_length_exact [of l] sh tx
      ConnectionLine_sel [of m boundingBox e1 s1 e2 s2 options]
      DiagonalLine_sel [of m c1 c2 options dl]
    by blast
qed

theorem rounding_only_in_encode_witness:
  "P 0 0 \<noteq> P 3 4 \<and>
   Line_shorten \<lparr>start = P 0 0, end' = P 3 4, marker = None, color = None\<rparr> (1 / 3) None =
     Inr \<lparr>start = P (1 / 5) (4 / 15), end' = P (14 / 5) (56 / 15), marker = None, color = None\<rparr> \<and>
   round3 (4 / 15) = 267 / 1000"
proof -
  let ?l = "\<lparr>start = P 0 0, end' = P 3 4, marker = None, color = None\<rparr>"
  have len: "Line_length ?l = 5"
    by (simp add: Line_length_def Line_vector_def length_P_def sqrt_25)
  have ne: "start ?l \<noteq> end' ?l"
    by simp
  note r = rounding_only_in_encode [where l = ?l and s = "1 / 3" and eo = None,
      THEN conjunct2, THEN conjunct2, THEN conjunct2, THEN conjunct2, THEN conjunct2,
      THEN conjunct1, rule_format, OF ne, THEN conjunct1]
  from r have "Line_shorten ?l (1 / 3) None =
        Inr (?l\<lparr>start := P (x (start ?l) + (x (end' ?l) - x (start ?l)) * ((1 / 3) / Line_length ?l))
                           (y (start ?l) + (y (end' ?l) - y (start ?l)) * ((1 / 3) / Line_length ?l)),
               end' := P (x (end' ?l) - (x (end' ?l) - x (start ?l)) * (nullish None (1 / 3) / Line_length ?l))
                         (y (end' ?l) - (y (end' ?l) - y (start ?l)) * (nullish None (1 / 3) / Line_length ?l))\<rparr>)" .
  then show ?thesis
    by (simp add: len nullish_def round3_example)
qed

end
